theory Spec2Isabelle
  imports Complex_Main "HOL-Library.AList"
begin

section \<open>The multi-signature proposal manager (src/wallet/MultiSigManager.js)\<close>

text \<open>
  JavaScript numbers that carry SOL amounts are modelled as exact rationals (the rounding
  of binary floating point is left out; comparisons, \<open>Math.min\<close> and the decimal
  rounding of \<open>toFixed\<close> and \<open>Math.round\<close> are modelled), counters and thresholds as
  integers, strings as \<open>string\<close>. A \<open>Map\<close> is an association list in insertion order
  whose keys are kept distinct by \<open>AList.update\<close>, which is what \<open>Map.prototype.set\<close>
  does. Every \<open>throw\<close> of the source is an \<open>Inl\<close> result; a method returns its result
  together with the manager as the call leaves it. Calls are taken one after the other:
  a call runs to its end before the next one begins.
\<close>

datatype status = PENDING | APPROVED | EXECUTED | REJECTED

text \<open>The source throws plain \<open>Error\<close> objects; the constructors name their messages.\<close>

datatype error =
    NotFound string                 \<comment> \<open>\<open>Proposal ${proposalId} not found\<close>\<close>
  | ProposalIs string status        \<comment> \<open>\<open>Proposal ${proposalId} is ${proposal.status}\<close>\<close>
  | NotAuthorized string string     \<comment> \<open>\<open>${agentId} is not an authorized signer for ${proposalId}\<close>\<close>
  | NotYetApproved string nat int   \<comment> \<open>\<open>not yet approved (${signatureCount}/${requiredSigners} signatures)\<close>\<close>
  | AlreadyExecuted string          \<comment> \<open>\<open>Proposal ${proposalId} already executed\<close>\<close>
  | WalletNotLoaded string          \<comment> \<open>\<open>WalletManager._getKeypair\<close>: wallet not loaded\<close>
  | BlockhashUnavailable            \<comment> \<open>\<open>conn.getLatestBlockhash()\<close> rejected\<close>
  | InvalidPublicKey string         \<comment> \<open>\<open>new PublicKey(toAddress)\<close> threw\<close>
  | LamportsOutOfRange int          \<comment> \<open>\<open>SystemProgram.transfer\<close>: the lamports do not fit a u64\<close>
  | UnknownSigner string            \<comment> \<open>\<open>Transaction.sign\<close>: \<open>unknown signer: ${publicKey}\<close>\<close>
  | SignatureMissing                \<comment> \<open>a required signer has not signed when the transaction is serialized\<close>
  | SendFailed                      \<comment> \<open>\<open>sendAndConfirmTransaction\<close> rejected\<close>
  | BalanceUnavailable string       \<comment> \<open>\<open>getSOLBalance()\<close> of that agent rejected\<close>
  | TradeFailed                     \<comment> \<open>\<open>protocol.executeTrade\<close> rejected\<close>
  | RebalanceFailed                 \<comment> \<open>\<open>protocol.rebalancePool\<close> rejected\<close>

text \<open>
  A transfer transaction as the manager builds it. \<open>signers\<close> lists the public keys whose
  signatures the transaction object carries; \<open>Transaction.sign\<close> replaces them.
\<close>

record transaction =
  recentBlockhash :: string
  feePayer :: string
  fromPubkey :: string
  toPubkey :: string
  lamports :: int
  signers :: "string list"

text \<open>The stored signature bytes: the signature of a key, or \<open>Buffer.alloc(64)\<close>.\<close>

datatype sig_blob = SignatureOf string | Zeroes64

text \<open>
  \<open>WalletManager\<close>: the agent id and the key pair (its public key), \<open>None\<close> while the
  wallet is not loaded, when \<open>_getKeypair\<close> throws.
\<close>

record wallet =
  agentId :: string
  keypair :: "string option"

text \<open>
  What the outside world answers during one call: the RPC node's latest blockhash
  (\<open>None\<close>: the request fails), whether \<open>new PublicKey\<close> accepts an address, what the
  network answers to a signed transaction sent for confirmation (\<open>None\<close>: the send or the
  confirmation fails and \<open>sendAndConfirmTransaction\<close> throws), the clock
  \<open>Date.now()\<close> and the identifier \<open>nanoid(8)\<close> generates.
\<close>

record world =
  latestBlockhash :: "string option"
  validAddress :: "string \<Rightarrow> bool"
  sendAndConfirm :: "transaction \<Rightarrow> string option"
  now :: nat
  nanoid :: string

record proposal =
  proposalId :: string
  proposerAgentId :: string
  description :: string
  transaction :: transaction
  requiredSigners :: int
  authorizedSigners :: "string list"
  signatures :: "(string \<times> sig_blob) list"
  status :: status
  createdAt :: nat
  executedAt :: "nat option"
  executionSignature :: "string option"

text \<open>
  The manager: the registry \<open>_proposals\<close>, and the transactions handed to
  \<open>sendAndConfirmTransaction\<close> so far, each with the id of the proposal it was sent for
  (the network's view, kept to state what has been broadcast).
\<close>

record manager =
  proposals :: "(string \<times> proposal) list"
  sent :: "(string \<times> transaction) list"

definition LAMPORTS_PER_SOL :: rat where
  "LAMPORTS_PER_SOL = 1000000000"

text \<open>\<open>Math.round\<close>: the nearest integer, a tie going up.\<close>

definition Math_round :: "rat \<Rightarrow> int" where
  "Math_round x = \<lfloor>x + 1 / 2\<rfloor>"

text \<open>The constructor of \<open>MultiSigProposal\<close>.\<close>

definition new_proposal ::
  "string \<Rightarrow> string \<Rightarrow> string \<Rightarrow> transaction \<Rightarrow> int \<Rightarrow> string list \<Rightarrow> nat \<Rightarrow> proposal" where
  "new_proposal pid proposer descr tx required authorized t =
     \<lparr>proposalId = pid, proposerAgentId = proposer, description = descr, transaction = tx,
      requiredSigners = required, authorizedSigners = authorized, signatures = [],
      status = PENDING, createdAt = t, executedAt = None, executionSignature = None\<rparr>"

text \<open>\<open>signatures.size\<close>: the number of distinct keys.\<close>

definition signatureCount :: "proposal \<Rightarrow> nat" where
  "signatureCount p = length (remdups (map fst (signatures p)))"

definition isApproved :: "proposal \<Rightarrow> bool" where
  "isApproved p = (int (signatureCount p) \<ge> requiredSigners p)"

text \<open>
  \<open>WalletManager.signOnly\<close>: throws when the wallet is not loaded, otherwise makes the
  wallet the fee payer and signs the transaction object in place.
\<close>

definition signOnly :: "wallet \<Rightarrow> transaction \<Rightarrow> error + transaction" where
  "signOnly w tx =
     (case keypair w of
        None \<Rightarrow> Inl (WalletNotLoaded (agentId w))
      | Some k \<Rightarrow> Inr (tx\<lparr>feePayer := k, signers := [k]\<rparr>))"

text \<open>\<open>Buffer.from(signed.signature || Buffer.alloc(64))\<close>.\<close>

definition signature_blob :: "transaction \<Rightarrow> sig_blob" where
  "signature_blob tx = (case signers tx of [] \<Rightarrow> Zeroes64 | k # _ \<Rightarrow> SignatureOf k)"

text \<open>
  The accounts of the transfer transaction as \<open>@solana/web3.js\<close> compiles it: the fee
  payer, the sender, the recipient and the system program.
\<close>

definition SYSTEM_PROGRAM_ID :: string where
  "SYSTEM_PROGRAM_ID = ''11111111111111111111111111111111''"

definition accountKeys :: "transaction \<Rightarrow> string list" where
  "accountKeys tx = [feePayer tx, fromPubkey tx, toPubkey tx, SYSTEM_PROGRAM_ID]"

text \<open>
  \<open>WalletManager.signAndSend\<close>: throws when the wallet is not loaded, otherwise calls
  \<open>sendAndConfirmTransaction(conn, transaction, [keypair])\<close>. The library takes a recent
  blockhash, signs the transaction with this one key pair in place of the signatures it
  carried, and serializes it: it throws \<open>unknown signer\<close> when the key is no account of
  the transaction, and it throws when the fee payer or the sender, who must sign, is another
  key and so is left without a signature. Only then is the transaction handed to the
  network. The second component is the list of transactions handed over so far; \<open>tag\<close> is
  the proposal the transaction is sent for. What the library writes into the transaction
  object on the way (the blockhash, the signature) is not tracked: the manager never reads
  it.
\<close>

definition signAndSend ::
  "world \<Rightarrow> wallet \<Rightarrow> string \<Rightarrow> transaction \<Rightarrow> (string \<times> transaction) list
     \<Rightarrow> (error + string) \<times> (string \<times> transaction) list" where
  "signAndSend env w tag tx hist =
     (case keypair w of
        None \<Rightarrow> (Inl (WalletNotLoaded (agentId w)), hist)
      | Some k \<Rightarrow>
          (case latestBlockhash env of
             None \<Rightarrow> (Inl BlockhashUnavailable, hist)
           | Some blockhash \<Rightarrow>
               if k \<in> set (accountKeys tx) then
                 if feePayer tx = k \<and> fromPubkey tx = k then
                   (case sendAndConfirm env tx of
                      None \<Rightarrow> (Inl SendFailed, hist @ [(tag, tx)])
                    | Some sg \<Rightarrow> (Inr sg, hist @ [(tag, tx)]))
                 else (Inl SignatureMissing, hist)
               else (Inl (UnknownSigner k), hist)))"

text \<open>
  \<open>createTransferProposal\<close>. \<open>SystemProgram.transfer\<close> encodes the lamports as an unsigned
  64-bit integer and throws when they do not fit, before anything is signed or registered.
\<close>

definition U64_MAX :: int where
  "U64_MAX = 18446744073709551615"

definition createTransferProposal ::
  "manager \<Rightarrow> world \<Rightarrow> wallet \<Rightarrow> string \<Rightarrow> rat \<Rightarrow> string \<Rightarrow> int \<Rightarrow> wallet list
     \<Rightarrow> (error + proposal) \<times> manager" where
  "createTransferProposal m env proposerWallet toAddress amountSOL descr required coSigners =
     (case latestBlockhash env of
        None \<Rightarrow> (Inl BlockhashUnavailable, m)
      | Some blockhash \<Rightarrow>
     (case keypair proposerWallet of
        None \<Rightarrow> (Inl (WalletNotLoaded (agentId proposerWallet)), m)
      | Some pk \<Rightarrow>
        if \<not> validAddress env toAddress then (Inl (InvalidPublicKey toAddress), m)
        else if 0 \<le> Math_round (amountSOL * LAMPORTS_PER_SOL)
                \<and> Math_round (amountSOL * LAMPORTS_PER_SOL) \<le> U64_MAX then
          let tx = \<lparr>recentBlockhash = blockhash, feePayer = pk, fromPubkey = pk,
                    toPubkey = toAddress, lamports = Math_round (amountSOL * LAMPORTS_PER_SOL),
                    signers = []\<rparr>;
              authorizedIds = agentId proposerWallet # map agentId coSigners;
              pid = ''msig-'' @ nanoid env;
              p = new_proposal pid (agentId proposerWallet) descr tx required authorizedIds (now env)
          in (case signOnly proposerWallet tx of
                Inl e \<Rightarrow> (Inl e, m)
              | Inr signed \<Rightarrow>
                  let p' = p\<lparr>transaction := signed,
                             signatures := AList.update (agentId proposerWallet)
                                             (signature_blob signed) (signatures p)\<rparr>
                  in (Inr p', m\<lparr>proposals := AList.update pid p' (proposals m)\<rparr>))
        else (Inl (LamportsOutOfRange (Math_round (amountSOL * LAMPORTS_PER_SOL))), m)))"

text \<open>\<open>coSign\<close> returns \<open>{ proposal, approved }\<close>.\<close>

definition coSign :: "manager \<Rightarrow> string \<Rightarrow> wallet \<Rightarrow> (error + proposal \<times> bool) \<times> manager" where
  "coSign m pid signerWallet =
     (case map_of (proposals m) pid of
        None \<Rightarrow> (Inl (NotFound pid), m)
      | Some p \<Rightarrow>
          if status p \<noteq> PENDING then (Inl (ProposalIs pid (status p)), m)
          else if agentId signerWallet \<notin> set (authorizedSigners p)
            then (Inl (NotAuthorized (agentId signerWallet) pid), m)
          else if map_of (signatures p) (agentId signerWallet) \<noteq> None
            then (Inr (p, isApproved p), m)
          else
            (case signOnly signerWallet (transaction p) of
               Inl e \<Rightarrow> (Inl e, m)
             | Inr signed \<Rightarrow>
                 let p1 = p\<lparr>transaction := signed,
                            signatures := AList.update (agentId signerWallet)
                                            (signature_blob signed) (signatures p)\<rparr>;
                     p2 = (if isApproved p1 then p1\<lparr>status := APPROVED\<rparr> else p1)
                 in (Inr (p2, isApproved p2), m\<lparr>proposals := AList.update pid p2 (proposals m)\<rparr>)))"

definition execute :: "manager \<Rightarrow> world \<Rightarrow> string \<Rightarrow> wallet \<Rightarrow> (error + string) \<times> manager" where
  "execute m env pid executorWallet =
     (case map_of (proposals m) pid of
        None \<Rightarrow> (Inl (NotFound pid), m)
      | Some p \<Rightarrow>
          if \<not> isApproved p
            then (Inl (NotYetApproved pid (signatureCount p) (requiredSigners p)), m)
          else if status p = EXECUTED then (Inl (AlreadyExecuted pid), m)
          else
            (case signAndSend env executorWallet pid (transaction p) (sent m) of
               (Inl err, hist) \<Rightarrow> (Inl err, m\<lparr>sent := hist\<rparr>)
             | (Inr sg, hist) \<Rightarrow>
                 (Inr sg,
                  m\<lparr>sent := hist,
                    proposals :=
                      AList.update pid
                        (p\<lparr>status := EXECUTED, executedAt := Some (now env),
                           executionSignature := Some sg\<rparr>)
                        (proposals m)\<rparr>)))"

subsection \<open>Sequences of calls\<close>

text \<open>
  A caller's request to the manager, and the manager after a list of requests, each made
  in the world of its moment. \<open>creates\<close> is the id a request would register.
\<close>

datatype call =
    Create wallet string rat string int "wallet list"
  | CoSign string wallet
  | Execute string wallet

fun step :: "manager \<Rightarrow> world \<times> call \<Rightarrow> manager" where
  "step m (env, Create w dest amt d r cs) = snd (createTransferProposal m env w dest amt d r cs)"
| "step m (env, CoSign pid w) = snd (coSign m pid w)"
| "step m (env, Execute pid w) = snd (execute m env pid w)"

fun creates :: "world \<times> call \<Rightarrow> string option" where
  "creates (env, Create w dest amt d r cs) = Some (''msig-'' @ nanoid env)"
| "creates (env, CoSign pid w) = None"
| "creates (env, Execute pid w) = None"

definition run :: "manager \<Rightarrow> (world \<times> call) list \<Rightarrow> manager" where
  "run m cs = foldl step m cs"

text \<open>The transactions sent for one proposal, in order.\<close>

definition sent_for :: "string \<Rightarrow> manager \<Rightarrow> transaction list" where
  "sent_for pid m = map snd (filter (\<lambda>e. fst e = pid) (sent m))"

subsection \<open>A 2-of-3 treasury transfer, as in the README\<close>

definition new_manager :: manager where
  "new_manager = \<lparr>proposals = [], sent = []\<rparr>"

definition ex_alice :: wallet where
  "ex_alice = \<lparr>agentId = ''alice'', keypair = Some ''PkAlice''\<rparr>"

definition ex_bob :: wallet where
  "ex_bob = \<lparr>agentId = ''bob'', keypair = Some ''PkBob''\<rparr>"

definition ex_carol :: wallet where
  "ex_carol = \<lparr>agentId = ''carol'', keypair = Some ''PkCarol''\<rparr>"

definition ex_world :: world where
  "ex_world = \<lparr>latestBlockhash = Some ''hash1'', validAddress = (\<lambda>a. True),
               sendAndConfirm = (\<lambda>tx. Some ''txsig1''), now = 1000, nanoid = ''a1b2c3d4''\<rparr>"

definition ex_pid :: string where
  "ex_pid = ''msig-a1b2c3d4''"

text \<open>Alice proposes 0.5 SOL with threshold \<open>k\<close>, co-signers Bob and Carol.\<close>

definition ex_created :: "int \<Rightarrow> manager" where
  "ex_created k =
     snd (createTransferProposal new_manager ex_world ex_alice ''Dest'' (1 / 2) ''treasury'' k
            [ex_bob, ex_carol])"

definition ex_cosigned :: manager where
  "ex_cosigned = snd (coSign (ex_created 2) ex_pid ex_bob)"

text \<open>Alice executes her own 1-of-3 proposal right after creating it.\<close>

definition ex_executed :: manager where
  "ex_executed = snd (execute (ex_created 1) ex_world ex_pid ex_alice)"

text \<open>The proposal as the creation leaves it, and as Bob's co-signature leaves it.\<close>

definition ex_proposal :: "int \<Rightarrow> proposal" where
  "ex_proposal k =
     \<lparr>proposalId = ex_pid, proposerAgentId = ''alice'', description = ''treasury'',
      transaction = \<lparr>recentBlockhash = ''hash1'', feePayer = ''PkAlice'', fromPubkey = ''PkAlice'',
                      toPubkey = ''Dest'', lamports = 500000000, signers = [''PkAlice'']\<rparr>,
      requiredSigners = k, authorizedSigners = [''alice'', ''bob'', ''carol''],
      signatures = [(''alice'', SignatureOf ''PkAlice'')], status = PENDING, createdAt = 1000,
      executedAt = None, executionSignature = None\<rparr>"

definition ex_approved :: proposal where
  "ex_approved =
     (ex_proposal 2)\<lparr>transaction := (transaction (ex_proposal 2))\<lparr>feePayer := ''PkBob'', signers := [''PkBob'']\<rparr>,
                     signatures := [(''alice'', SignatureOf ''PkAlice''), (''bob'', SignatureOf ''PkBob'')],
                     status := APPROVED\<rparr>"

text \<open>The 1-of-3 proposal as Alice's execution leaves it.\<close>

definition ex_done :: proposal where
  "ex_done = (ex_proposal 1)\<lparr>status := EXECUTED, executedAt := Some 1000,
                              executionSignature := Some ''txsig1''\<rparr>"

text \<open>What callers try after the execution, a new proposal under another id included.\<close>

definition ex_later :: "(world \<times> call) list" where
  "ex_later = [(ex_world, CoSign ex_pid ex_carol), (ex_world, Execute ex_pid ex_bob),
               (ex_world\<lparr>nanoid := ''zzzz9999''\<rparr>, Create ex_bob ''Dest'' 1 ''again'' 1 [])]"

section \<open>The decision engines (agent/DecisionEngine.js, agent/LLMDecisionEngine.js)\<close>

text \<open>
  SOL amounts are exact rationals; the cap \<open>AGENT_MAX_SOL_PER_TX\<close>, read from the
  environment by config.js, is the parameter \<open>cap\<close>. The states of \<open>AgentState\<close> are the
  strings the source uses, since the action of a decision is whatever string the reply holds.
\<close>

abbreviation IDLE :: string where "IDLE \<equiv> ''IDLE''"
abbreviation TRADE :: string where "TRADE \<equiv> ''TRADE''"
abbreviation YIELD :: string where "YIELD \<equiv> ''YIELD''"
abbreviation REBAL :: string where "REBAL \<equiv> ''REBAL''"

text \<open>\<open>Object.values(AgentState)\<close>.\<close>

definition validActions :: "string list" where
  "validActions = [IDLE, TRADE, YIELD, REBAL]"

text \<open>
  The decision object: the parsed reply, or what \<open>_fallbackDecisionObject\<close> builds.
  \<open>None\<close> is \<open>null\<close> or an absent field.
\<close>

record decision =
  action :: string
  reason :: string
  tradeTarget :: "string option"
  tradeAmount :: "rat option"

text \<open>
  What the inference call yields: the request fails or times out, the status is not 2xx,
  the body is not JSON, the text holds no JSON object, \<open>JSON.parse\<close> throws, or the
  parsed object.
\<close>

datatype llm_reply =
    FetchFailed
  | NotOk nat
  | BodyNotJson
  | NoJsonObject
  | ParseError
  | Parsed decision

record snapshot =
  snapAgentId :: string
  publicKey :: string
  balanceSOL :: rat
  cycleNumber :: nat
  snapTradeCount :: nat
  totalVolumeSOL :: rat
  snapPeers :: "(string \<times> rat option) list"
  maxTradeSOL :: rat
  availablePeerIds :: "string list"

text \<open>
  What the outside world answers during one tick: the balance queries (\<open>None\<close>: the query
  rejects), the inference call, the protocol (\<open>executeTrade\<close> by destination key and
  amount, \<open>None\<close>: it rejects; \<open>simulateYield\<close>, \<open>None\<close>: it returns \<open>null\<close>;
  \<open>rebalancePool\<close>, \<open>False\<close>: it rejects), and one number for each place that calls
  \<open>Math.random()\<close>.
\<close>

record tick_env =
  solBalance :: "string \<Rightarrow> rat option"
  infer :: "snapshot \<Rightarrow> llm_reply"
  executeTrade :: "string \<Rightarrow> rat \<Rightarrow> string option"
  simulateYield :: "rat \<Rightarrow> string option"
  rebalancePool :: "rat \<Rightarrow> bool"
  rndFallbackPeer :: rat
  rndTradePeer :: rat
  rndTradeAmount :: rat

record engine =
  engineId :: string
  ewallet :: wallet
  peers :: "wallet list"
  state :: string
  cycleCount :: nat
  tradeCount :: nat
  totalVolume :: rat
  apiKey :: "string option"
  lastLLMDecision :: "decision option"
  llmCallCount :: nat
  llmFailCount :: nat

text \<open>
  The emitted events: \<open>decision\<close> (agent, cycle, balance, previous and next state, source,
  reason), the three \<open>action\<close> events and \<open>error\<close>.
\<close>

datatype event =
    DecisionEv string nat rat string string string "string option"
  | TradeAction string rat string string string string
  | YieldAction string rat "string option"
  | RebalAction string rat
  | ErrorEv string string error

text \<open>
  \<open>Math.random()\<close> lies in \<open>[0, 1)\<close>: the generator's value is the fractional part of the
  number supplied.
\<close>

definition Math_random :: "rat \<Rightarrow> rat" where
  "Math_random x = x - of_int \<lfloor>x\<rfloor>"

text \<open>\<open>xs[Math.floor(Math.random() * xs.length)]\<close>, called on a non-empty array only.\<close>

definition pick :: "rat \<Rightarrow> 'a list \<Rightarrow> 'a" where
  "pick r xs = xs ! nat \<lfloor>Math_random r * of_nat (length xs)\<rfloor>"

text \<open>
  \<open>parseFloat(x.toFixed(6))\<close>: the nearest multiple of \<open>0.000001\<close>, a tie going away from
  zero.
\<close>

definition toFixed6 :: "rat \<Rightarrow> rat" where
  "toFixed6 x =
     (if x < 0 then - (of_int \<lfloor>(- x) * 1000000 + 1 / 2\<rfloor> / 1000000)
      else of_int \<lfloor>x * 1000000 + 1 / 2\<rfloor> / 1000000)"

text \<open>\<open>a || b\<close> on an amount: \<open>null\<close> and \<open>0\<close> are falsy.\<close>

definition amount_or :: "rat option \<Rightarrow> rat \<Rightarrow> rat" where
  "amount_or a b = (case a of None \<Rightarrow> b | Some x \<Rightarrow> if x = 0 then b else x)"

subsection \<open>The rule engine\<close>

text \<open>\<open>DecisionEngine._decide\<close>.\<close>

definition decide :: "engine \<Rightarrow> rat \<Rightarrow> string" where
  "decide e balance =
     (if balance < 3 / 1000 then IDLE
      else if cycleCount e mod 7 = 0 then YIELD
      else if cycleCount e mod 12 = 0 \<and> length (peers e) > 0 then REBAL
      else if length (peers e) > 0 \<and> balance > 2 / 100 then TRADE
      else IDLE)"

text \<open>
  \<open>DecisionEngine._doTrade\<close> up to the call of \<open>protocol.executeTrade\<close>: the peer and the
  amount it is called with, \<open>None\<close> when the method returns before.
\<close>

definition ruleTradeRequest :: "rat \<Rightarrow> engine \<Rightarrow> tick_env \<Rightarrow> rat \<Rightarrow> (wallet \<times> rat) option" where
  "ruleTradeRequest cap e env balance =
     (if length (peers e) = 0 then None
      else
        let peer = pick (rndTradePeer env) (peers e) in
        if agentId peer = engineId e then None
        else
          let maxTrade = min cap (balance * (1 / 10)) in
          if maxTrade < 1 / 1000000 then None
          else
            let amount = toFixed6 (Math_random (rndTradeAmount env) * maxTrade) in
            if amount \<le> 0 then None else Some (peer, amount))"

subsection \<open>The inference engine\<close>

definition fallbackDecisionObject :: "rat \<Rightarrow> engine \<Rightarrow> tick_env \<Rightarrow> rat \<Rightarrow> decision" where
  "fallbackDecisionObject cap e env balance =
     (if balance < 3 / 1000
        then \<lparr>action = IDLE, reason = ''Balance too low'', tradeTarget = None, tradeAmount = None\<rparr>
      else if cycleCount e mod 7 = 0
        then \<lparr>action = YIELD, reason = ''Periodic yield cycle'', tradeTarget = None,
              tradeAmount = None\<rparr>
      else if cycleCount e mod 12 = 0 \<and> length (peers e) > 0
        then \<lparr>action = REBAL, reason = ''Periodic rebalance'', tradeTarget = None,
              tradeAmount = None\<rparr>
      else if length (peers e) > 0 \<and> balance > 2 / 100
        then
          let peer = pick (rndFallbackPeer env) (peers e)
          in \<lparr>action = TRADE, reason = ''Rule-based trade opportunity'',
              tradeTarget = Some (agentId peer), tradeAmount = Some (cap * (1 / 2))\<rparr>
      else \<lparr>action = IDLE, reason = ''No opportunity found'', tradeTarget = None,
            tradeAmount = None\<rparr>)"

text \<open>
  \<open>_llmDecide\<close>: without a key no call is made; a call that does not yield a parsed object
  counts as a failure; both return the fallback decision for \<open>snapshot.balanceSOL\<close>.
\<close>

definition llmDecide :: "rat \<Rightarrow> engine \<Rightarrow> tick_env \<Rightarrow> snapshot \<Rightarrow> decision \<times> engine" where
  "llmDecide cap e env snap =
     (if apiKey e = None \<or> apiKey e = Some []
        then (fallbackDecisionObject cap e env (balanceSOL snap), e)
      else
        let e1 = e\<lparr>llmCallCount := llmCallCount e + 1\<rparr> in
        (case infer env snap of
           Parsed d \<Rightarrow> (d, e1)
         | _ \<Rightarrow>
             let e2 = e1\<lparr>llmFailCount := llmFailCount e1 + 1\<rparr>
             in (fallbackDecisionObject cap e2 env (balanceSOL snap), e2)))"

text \<open>
  \<open>_validateDecision\<close> returns the next state and caps \<open>decision.tradeAmount\<close> in place;
  the model returns the decision object as the call leaves it.
\<close>

definition validateDecision :: "rat \<Rightarrow> decision \<Rightarrow> rat \<Rightarrow> string \<times> decision" where
  "validateDecision cap d balance =
     (if action d \<notin> set validActions then (IDLE, d)
      else if action d = TRADE then
        let tradeAmt = amount_or (tradeAmount d) 0 in
        if balance - tradeAmt < 3 / 1000 then (IDLE, d)
        else if tradeAmt > cap then (action d, d\<lparr>tradeAmount := Some cap\<rparr>)
        else (action d, d)
      else (action d, d))"

text \<open>
  \<open>_doLLMTrade\<close> up to the call of \<open>protocol.executeTrade\<close>: the peer and the amount it
  is called with, \<open>None\<close> when the method returns before.
\<close>

definition llmTradeRequest ::
  "rat \<Rightarrow> engine \<Rightarrow> tick_env \<Rightarrow> rat \<Rightarrow> decision \<Rightarrow> (wallet \<times> rat) option" where
  "llmTradeRequest cap e env balance d =
     (let found = (case tradeTarget d of
                     None \<Rightarrow> None
                   | Some t \<Rightarrow> if t = [] then None else find (\<lambda>p. agentId p = t) (peers e));
          targetPeer = (case found of
                          Some p \<Rightarrow> Some p
                        | None \<Rightarrow> if length (peers e) > 0
                                    then Some (pick (rndTradePeer env) (peers e)) else None)
      in (case targetPeer of
            None \<Rightarrow> None
          | Some tp \<Rightarrow>
              let amount = toFixed6 (min (amount_or (tradeAmount d)
                                            (Math_random (rndTradeAmount env) * cap))
                                         (min cap (balance * (1 / 10))))
              in if amount \<le> 1 / 1000000 then None else Some (tp, amount)))"

definition doLLMTrade ::
  "rat \<Rightarrow> engine \<Rightarrow> tick_env \<Rightarrow> rat \<Rightarrow> decision \<Rightarrow> (error + unit) \<times> engine \<times> event list" where
  "doLLMTrade cap e env balance d =
     (case llmTradeRequest cap e env balance d of
        None \<Rightarrow> (Inr (), e, [])
      | Some (tp, amount) \<Rightarrow>
          (case keypair tp of
             None \<Rightarrow> (Inl (WalletNotLoaded (agentId tp)), e, [])
           | Some pk \<Rightarrow>
               (case executeTrade env pk amount of
                  None \<Rightarrow> (Inl TradeFailed, e, [])
                | Some sg \<Rightarrow>
                    (Inr (),
                     e\<lparr>tradeCount := tradeCount e + 1, totalVolume := totalVolume e + amount\<rparr>,
                     [TradeAction (engineId e) amount (agentId tp) sg ''llm'' (reason d)]))))"

text \<open>\<open>DecisionEngine._doYield\<close>; \<open>simulateYield\<close> catches its own failures.\<close>

definition doYield :: "engine \<Rightarrow> tick_env \<Rightarrow> rat \<Rightarrow> (error + unit) \<times> engine \<times> event list" where
  "doYield e env balance =
     (let yieldAmount = toFixed6 (balance * (1 / 1000))
      in (Inr (), e, [YieldAction (engineId e) yieldAmount (simulateYield env yieldAmount)]))"

text \<open>The first balance query that rejects, or all the balances.\<close>

fun getBalances :: "tick_env \<Rightarrow> wallet list \<Rightarrow> error + rat list" where
  "getBalances env [] = Inr []"
| "getBalances env (w # ws) =
     (case solBalance env (agentId w) of
        None \<Rightarrow> Inl (BalanceUnavailable (agentId w))
      | Some b \<Rightarrow> (case getBalances env ws of Inl err \<Rightarrow> Inl err | Inr bs \<Rightarrow> Inr (b # bs)))"

text \<open>\<open>DecisionEngine._doRebal\<close>.\<close>

definition doRebal :: "engine \<Rightarrow> tick_env \<Rightarrow> (error + unit) \<times> engine \<times> event list" where
  "doRebal e env =
     (case getBalances env (ewallet e # peers e) of
        Inl err \<Rightarrow> (Inl err, e, [])
      | Inr balances \<Rightarrow>
          let avg = sum_list balances / of_nat (length balances)
          in if rebalancePool env avg then (Inr (), e, [RebalAction (engineId e) avg])
             else (Inl RebalanceFailed, e, []))"

text \<open>
  \<open>_executeStateWithLLMContext\<close>: whatever the action throws is caught, reported as an
  \<open>error\<close> event, and the state falls back to \<open>IDLE\<close>.
\<close>

definition executeStateWithLLMContext ::
  "rat \<Rightarrow> engine \<Rightarrow> tick_env \<Rightarrow> rat \<Rightarrow> decision \<Rightarrow> engine \<times> event list" where
  "executeStateWithLLMContext cap e env balance d =
     (let r = (if state e = TRADE then doLLMTrade cap e env balance d
               else if state e = YIELD then doYield e env balance
               else if state e = REBAL then doRebal e env
               else (Inr (), e, []))
      in (case r of
            (Inr u, e', evs) \<Rightarrow> (e', evs)
          | (Inl err, e', evs) \<Rightarrow>
              (e'\<lparr>state := IDLE\<rparr>, evs @ [ErrorEv (engineId e') (state e') err])))"

text \<open>\<open>_buildPeerSnapshots\<close>: a peer whose balance query fails is listed with \<open>null\<close>.\<close>

definition buildPeerSnapshots :: "engine \<Rightarrow> tick_env \<Rightarrow> (string \<times> rat option) list" where
  "buildPeerSnapshots e env =
     map (\<lambda>p. (agentId p, map_option toFixed6 (solBalance env (agentId p)))) (peers e)"

text \<open>The snapshot \<open>tick\<close> builds for the inference call.\<close>

definition buildSnapshot :: "rat \<Rightarrow> engine \<Rightarrow> tick_env \<Rightarrow> rat \<Rightarrow> string \<Rightarrow> snapshot" where
  "buildSnapshot cap e env balance pk =
     \<lparr>snapAgentId = engineId e, publicKey = pk, balanceSOL = toFixed6 balance,
      cycleNumber = cycleCount e, snapTradeCount = tradeCount e,
      totalVolumeSOL = toFixed6 (totalVolume e), snapPeers = buildPeerSnapshots e env,
      maxTradeSOL = cap, availablePeerIds = map agentId (peers e)\<rparr>"

text \<open>
  \<open>LLMDecisionEngine.tick\<close>. The result is \<open>Inl\<close> when the tick rejects. The decision
  object stored in \<open>_lastLLMDecision\<close> is the one \<open>_validateDecision\<close> caps.
\<close>

definition tick :: "rat \<Rightarrow> engine \<Rightarrow> tick_env \<Rightarrow> (error + unit) \<times> engine \<times> event list" where
  "tick cap e env =
     (let e1 = e\<lparr>cycleCount := cycleCount e + 1\<rparr> in
      case solBalance env (agentId (ewallet e1)) of
        None \<Rightarrow> (Inl (BalanceUnavailable (agentId (ewallet e1))), e1, [])
      | Some balance \<Rightarrow>
          if balance < 3 / 1000
            then (Inr (), e1\<lparr>state := IDLE\<rparr>,
                  [DecisionEv (engineId e1) (cycleCount e1) balance IDLE IDLE ''safety-gate'' None])
          else
            (case keypair (ewallet e1) of
               None \<Rightarrow> (Inl (WalletNotLoaded (agentId (ewallet e1))), e1, [])
             | Some pk \<Rightarrow>
                 let snap = buildSnapshot cap e1 env balance pk;
                     (d0, e2) = llmDecide cap e1 env snap;
                     (nextState, d) = validateDecision cap d0 balance;
                     e3 = e2\<lparr>lastLLMDecision := Some d\<rparr>;
                     ev = DecisionEv (engineId e3) (cycleCount e3) balance (state e3) nextState
                            ''llm'' (Some (reason d));
                     (e4, evs) = executeStateWithLLMContext cap (e3\<lparr>state := nextState\<rparr>) env
                                   balance d
                 in (Inr (), e4, ev # evs)))"

subsection \<open>One agent with one peer and an inference key\<close>

definition ex_engine :: engine where
  "ex_engine =
     \<lparr>engineId = ''alice'', ewallet = ex_alice, peers = [ex_bob], state = IDLE, cycleCount = 0,
      tradeCount = 0, totalVolume = 0, apiKey = Some ''key'', lastLLMDecision = None,
      llmCallCount = 0, llmFailCount = 0\<rparr>"

text \<open>Every balance is \<open>b\<close>, the inference call yields \<open>r\<close>, the protocol succeeds.\<close>

definition ex_env :: "rat \<Rightarrow> llm_reply \<Rightarrow> tick_env" where
  "ex_env b r =
     \<lparr>solBalance = (\<lambda>a. Some b), infer = (\<lambda>s. r), executeTrade = (\<lambda>k a. Some ''sig1''),
      simulateYield = (\<lambda>a. Some ''sig2''), rebalancePool = (\<lambda>a. True),
      rndFallbackPeer = 1 / 4, rndTradePeer = 1 / 2, rndTradeAmount = 3 / 4\<rparr>"

definition ex_trade :: "string \<Rightarrow> rat \<Rightarrow> decision" where
  "ex_trade t a = \<lparr>action = TRADE, reason = ''rich'', tradeTarget = Some t, tradeAmount = Some a\<rparr>"

section \<open>Properties of the proposal manager\<close>

lemmas ex_defs = new_manager_def ex_alice_def ex_bob_def ex_carol_def ex_world_def ex_pid_def
  ex_created_def ex_cosigned_def ex_executed_def

lemmas msig_defs = createTransferProposal_def coSign_def execute_def signOnly_def signAndSend_def
  signature_blob_def new_proposal_def isApproved_def signatureCount_def Math_round_def
  LAMPORTS_PER_SOL_def U64_MAX_def accountKeys_def SYSTEM_PROGRAM_ID_def Let_def

text \<open>Floors of rational numerals, for evaluating the rounding functions.\<close>

lemma floor_rat_numeral [simp]: "\<lfloor>numeral a / numeral b :: rat\<rfloor> = numeral a div numeral b"
  by (metis floor_divide_of_int_eq of_int_numeral)

lemma floor_rat_one_numeral [simp]: "\<lfloor>1 / numeral b :: rat\<rfloor> = 1 div numeral b"
  by (metis floor_divide_of_int_eq of_int_numeral of_int_1)

lemma floor_rat_minus_numeral [simp]:
  "\<lfloor>- (numeral a / numeral b) :: rat\<rfloor> = - numeral a div numeral b"
  by (metis divide_minus_left floor_divide_of_int_eq of_int_neg_numeral of_int_numeral)

lemma execute_on_executed:
  assumes "map_of (proposals m) pid = Some p" and "status p = EXECUTED"
  shows "\<exists>err. execute m env pid w = (Inl err, m)"
  using assms by (simp add: execute_def)

lemma execute_keeps_executed:
  assumes "map_of (proposals m) pid = Some p" and "status p = EXECUTED"
  shows "map_of (proposals (snd (execute m env q w))) pid = Some p
       \<and> sent_for pid (snd (execute m env q w)) = sent_for pid m"
  using assms
  by (cases "q = pid")
     (auto simp: execute_def signAndSend_def sent_for_def update_conv' split: option.splits)

lemma coSign_keeps_executed:
  assumes "map_of (proposals m) pid = Some p" and "status p = EXECUTED"
  shows "map_of (proposals (snd (coSign m q w))) pid = Some p
       \<and> sent_for pid (snd (coSign m q w)) = sent_for pid m"
  using assms
  by (cases "q = pid")
     (auto simp: coSign_def sent_for_def Let_def update_conv' split: option.splits sum.splits)

lemma create_keeps_other:
  assumes "map_of (proposals m) pid = Some p" and "''msig-'' @ nanoid env \<noteq> pid"
  shows "map_of (proposals (snd (createTransferProposal m env w dest amt d r cs))) pid = Some p
       \<and> sent_for pid (snd (createTransferProposal m env w dest amt d r cs)) = sent_for pid m"
  using assms
  by (auto simp: createTransferProposal_def sent_for_def Let_def update_conv'
           split: option.splits sum.splits)

lemma step_keeps_executed:
  assumes "map_of (proposals m) pid = Some p" and "status p = EXECUTED"
    and "creates c \<noteq> Some pid"
  shows "map_of (proposals (step m c)) pid = Some p \<and> sent_for pid (step m c) = sent_for pid m"
proof (cases c)
  case (Pair env k)
  with assms show ?thesis
    by (cases k) (simp_all add: execute_keeps_executed coSign_keeps_executed create_keeps_other)
qed

lemma run_keeps_executed:
  assumes "map_of (proposals m) pid = Some p" and "status p = EXECUTED"
    and "\<forall>c \<in> set cs. creates c \<noteq> Some pid"
  shows "map_of (proposals (run m cs)) pid = Some p \<and> sent_for pid (run m cs) = sent_for pid m"
  using assms
proof (induction cs arbitrary: m)
  case Nil
  then show ?case by (simp add: run_def)
next
  case (Cons c cs)
  have here: "map_of (proposals (step m c)) pid = Some p \<and> sent_for pid (step m c) = sent_for pid m"
    using step_keeps_executed[of m pid p c] Cons.prems by simp
  have rest: "\<forall>c \<in> set cs. creates c \<noteq> Some pid"
    using Cons.prems by simp
  from Cons.IH[of "step m c"] here rest Cons.prems(2) show ?case
    by (simp add: run_def)
qed

lemma execute_success:
  assumes "execute m env pid w = (Inr sg, m')"
  shows "\<exists>p'. map_of (proposals m') pid = Some p' \<and> status p' = EXECUTED
            \<and> sent_for pid m' = sent_for pid m @ [transaction p']"
  using assms
  by (auto simp: execute_def signAndSend_def sent_for_def update_conv'
           split: option.splits if_splits)

text \<open>
  C2. \<open>execute\<close> on a proposal whose status is \<open>EXECUTED\<close> raises and leaves the manager
  as it was, so nothing is handed to the network. This holds at once and after any further
  calls (\<open>coSign\<close>, \<open>execute\<close>, and creations that register other ids), none of which
  sends a transaction for that proposal again. A successful \<open>execute\<close> sends the
  transaction once and leaves the proposal \<open>EXECUTED\<close>, so it is the last send for it.
\<close>

theorem execute_exactly_once:
  "(map_of (proposals m) pid = Some p \<and> status p = EXECUTED
      \<and> (\<forall>c \<in> set cs. creates c \<noteq> Some pid)
    \<longrightarrow> (\<exists>err. execute (run m cs) env pid w = (Inl err, run m cs))
        \<and> sent_for pid (run m cs) = sent_for pid m)
   \<and> (execute m env pid w = (Inr sg, m')
    \<longrightarrow> (\<exists>p'. map_of (proposals m') pid = Some p' \<and> status p' = EXECUTED
              \<and> sent_for pid m' = sent_for pid m @ [transaction p']))"
proof (intro conjI impI)
  assume h: "map_of (proposals m) pid = Some p \<and> status p = EXECUTED
      \<and> (\<forall>c \<in> set cs. creates c \<noteq> Some pid)"
  then have k: "map_of (proposals (run m cs)) pid = Some p \<and> sent_for pid (run m cs) = sent_for pid m"
    using run_keeps_executed[of m pid p cs] by simp
  from k h show "\<exists>err. execute (run m cs) env pid w = (Inl err, run m cs)"
    using execute_on_executed[of "run m cs" pid p env w] by simp
  from k show "sent_for pid (run m cs) = sent_for pid m" by simp
next
  assume "execute m env pid w = (Inr sg, m')"
  then show "\<exists>p'. map_of (proposals m') pid = Some p' \<and> status p' = EXECUTED
              \<and> sent_for pid m' = sent_for pid m @ [transaction p']"
    by (rule execute_success)
qed

text \<open>
  The two ways a created proposal and its manager are written: by the call and in full.
\<close>

lemma ex_create:
  "createTransferProposal new_manager ex_world ex_alice ''Dest'' (1 / 2) ''treasury'' k [ex_bob, ex_carol]
     = (Inr (ex_proposal k), \<lparr>proposals = [(ex_pid, ex_proposal k)], sent = []\<rparr>)"
  by (simp add: ex_defs msig_defs ex_proposal_def)

lemma ex_created_eq: "ex_created k = \<lparr>proposals = [(ex_pid, ex_proposal k)], sent = []\<rparr>"
  by (simp add: ex_created_def ex_create)

lemma ex_execute:
  "execute (ex_created 1) ex_world ex_pid ex_alice
     = (Inr ''txsig1'',
        \<lparr>proposals = [(ex_pid, ex_done)], sent = [(ex_pid, transaction (ex_proposal 1))]\<rparr>)"
  by (simp add: ex_created_eq)
     (simp add: ex_proposal_def ex_done_def ex_alice_def ex_world_def ex_pid_def execute_def
        signAndSend_def accountKeys_def isApproved_def signatureCount_def)

lemma ex_executed_eq:
  "ex_executed = \<lparr>proposals = [(ex_pid, ex_done)], sent = [(ex_pid, transaction (ex_proposal 1))]\<rparr>"
  by (simp add: ex_executed_def ex_execute)

text \<open>
  C2, at the 1-of-3 proposal of the example once Alice has executed it, followed by a
  co-signature, another \<open>execute\<close> and the creation of an unrelated proposal.
\<close>

theorem execute_exactly_once_witness:
  "map_of (proposals ex_executed) ex_pid = Some ex_done \<and> status ex_done = EXECUTED
   \<and> (\<exists>err. execute (run ex_executed ex_later) ex_world ex_pid ex_alice
               = (Inl err, run ex_executed ex_later))
   \<and> sent_for ex_pid (run ex_executed ex_later) = sent_for ex_pid ex_executed
   \<and> execute (ex_created 1) ex_world ex_pid ex_alice = (Inr ''txsig1'', ex_executed)
   \<and> (\<exists>p'. map_of (proposals ex_executed) ex_pid = Some p' \<and> status p' = EXECUTED
          \<and> sent_for ex_pid ex_executed = sent_for ex_pid (ex_created 1) @ [transaction p'])"
proof -
  have a: "map_of (proposals ex_executed) ex_pid = Some ex_done"
    and b: "status ex_done = EXECUTED"
    by (simp_all add: ex_executed_eq ex_done_def)
  have c: "\<forall>c \<in> set ex_later. creates c \<noteq> Some ex_pid"
    by (simp add: ex_later_def ex_defs)
  have d: "execute (ex_created 1) ex_world ex_pid ex_alice = (Inr ''txsig1'', ex_executed)"
    by (simp add: ex_execute ex_executed_eq)
  show ?thesis
    using execute_exactly_once[of ex_executed ex_pid ex_done ex_later ex_world ex_alice
        "''txsig1''" ex_executed]
      execute_exactly_once[of "ex_created 1" ex_pid ex_done "[]" ex_world ex_alice
        "''txsig1''" ex_executed]
      a b c d by simp
qed



text \<open>
  The library's signing decides who can execute: Bob, who is no account of Alice's fresh
  transfer, is turned away as an unknown signer.
\<close>

lemma ex_execute_by_other:
  "execute (ex_created 1) ex_world ex_pid ex_bob = (Inl (UnknownSigner ''PkBob''), ex_created 1)"
  by (simp add: ex_created_eq)
     (simp add: ex_proposal_def ex_bob_def ex_world_def ex_pid_def execute_def signAndSend_def
        accountKeys_def SYSTEM_PROGRAM_ID_def isApproved_def signatureCount_def)

text \<open>
  In \<open>coSign\<close> a new signature raises the count by one, and the status afterwards is
  \<open>APPROVED\<close> exactly when the count has reached \<open>requiredSigners\<close>.
\<close>

lemma new_key_count:
  assumes "map_of al k = None"
  shows "length (remdups (map fst (AList.update k v al))) = Suc (length (remdups (map fst al)))"
proof -
  from assms have nk: "k \<notin> set (map fst al)"
    by (simp add: map_of_eq_None_iff)
  then have "map fst (AList.update k v al) = map fst al @ [k]"
    by (simp add: update_keys)
  then have "set (map fst (AList.update k v al)) = insert k (set (map fst al))"
    by simp
  then have "card (set (map fst (AList.update k v al))) = Suc (card (set (map fst al)))"
    using nk by simp
  then show ?thesis
    by (simp only: length_remdups_card_conv)
qed

lemma coSign_new_signature:
  assumes "map_of (proposals m) pid = Some p" and "status p = PENDING"
    and "agentId w \<in> set (authorizedSigners p)" and "map_of (signatures p) (agentId w) = None"
    and "keypair w = Some k"
  shows "\<exists>p'. coSign m pid w
                = (Inr (p', isApproved p'), m\<lparr>proposals := AList.update pid p' (proposals m)\<rparr>)
             \<and> signatureCount p' = signatureCount p + 1
             \<and> status p' = (if requiredSigners p \<le> int (signatureCount p) + 1 then APPROVED
                             else PENDING)"
  using assms new_key_count[OF assms(4), of "SignatureOf k"]
  by (simp add: coSign_def signOnly_def signature_blob_def isApproved_def signatureCount_def
      Let_def)

text \<open>
  C3. The creation records the proposer's signature and leaves the status alone: the
  1-of-3 proposal of the example has one signature of one required, \<open>isApproved\<close> holds,
  and its status is \<open>PENDING\<close>, not \<open>APPROVED\<close>. A second \<open>coSign\<close> by the proposer
  reports the approval and leaves the status \<open>PENDING\<close>; the status becomes \<open>APPROVED\<close>
  only with Bob's signature, the second one.
\<close>

theorem create_threshold_one_stays_pending:
  "createTransferProposal new_manager ex_world ex_alice ''Dest'' (1 / 2) ''treasury'' 1 [ex_bob, ex_carol]
     = (Inr (ex_proposal 1), ex_created 1)
   \<and> signatureCount (ex_proposal 1) = 1 \<and> requiredSigners (ex_proposal 1) = 1
   \<and> isApproved (ex_proposal 1)
   \<and> status (ex_proposal 1) = PENDING
   \<and> map_of (proposals (ex_created 1)) ex_pid = Some (ex_proposal 1)
   \<and> fst (coSign (ex_created 1) ex_pid ex_alice) = Inr (ex_proposal 1, True)
   \<and> fst (coSign (ex_created 1) ex_pid ex_bob)
       = Inr (ex_approved\<lparr>requiredSigners := 1\<rparr>, True)
   \<and> signatureCount (ex_approved\<lparr>requiredSigners := 1\<rparr>) = 2
   \<and> status (ex_approved\<lparr>requiredSigners := 1\<rparr>) = APPROVED"
  by (simp add: ex_create ex_created_eq)
     (simp add: ex_proposal_def ex_approved_def ex_alice_def ex_bob_def ex_pid_def coSign_def
        signOnly_def signature_blob_def signatureCount_def isApproved_def Let_def)

text \<open>
  C5, as stated, fails: with threshold 0, and with threshold 4 for three authorized
  signers, the creation returns the proposal and registers it.
\<close>

theorem create_accepts_bad_threshold:
  "fst (createTransferProposal new_manager ex_world ex_alice ''Dest'' (1 / 2) ''treasury'' 0 [ex_bob, ex_carol])
     = Inr (ex_proposal 0)
   \<and> map_of (proposals (ex_created 0)) ex_pid = Some (ex_proposal 0)
   \<and> requiredSigners (ex_proposal 0) < 1
   \<and> fst (createTransferProposal new_manager ex_world ex_alice ''Dest'' (1 / 2) ''treasury'' 4 [ex_bob, ex_carol])
     = Inr (ex_proposal 4)
   \<and> map_of (proposals (ex_created 4)) ex_pid = Some (ex_proposal 4)
   \<and> requiredSigners (ex_proposal 4) > int (length (authorizedSigners (ex_proposal 4)))"
  by (simp add: ex_create ex_created_eq) (simp add: ex_proposal_def)

text \<open>
  C5, amended. \<open>createTransferProposal\<close> does not look at \<open>requiredSigners\<close>: whenever
  the blockhash is available, the proposer's wallet is loaded, the address is valid and
  the amount in lamports fits an unsigned 64-bit integer, it returns the proposal and
  registers it under the new id, \<open>PENDING\<close>, with the threshold it was given, whatever
  that is.
\<close>

theorem create_never_checks_threshold:
  assumes "latestBlockhash env = Some bh" and "keypair pw = Some pk" and "validAddress env dest"
    and "0 \<le> Math_round (amt * LAMPORTS_PER_SOL)"
    and "Math_round (amt * LAMPORTS_PER_SOL) \<le> U64_MAX"
  shows "\<exists>p. createTransferProposal m env pw dest amt d k cs
              = (Inr p, m\<lparr>proposals := AList.update (''msig-'' @ nanoid env) p (proposals m)\<rparr>)
           \<and> map_of (proposals (snd (createTransferProposal m env pw dest amt d k cs)))
               (''msig-'' @ nanoid env) = Some p
           \<and> requiredSigners p = k \<and> status p = PENDING
           \<and> authorizedSigners p = agentId pw # map agentId cs"
  using assms
  by (simp add: createTransferProposal_def signOnly_def new_proposal_def Let_def update_conv')

text \<open>C5, amended, at threshold 7 for two authorized signers and 0.5 SOL.\<close>

theorem create_never_checks_threshold_witness:
  "latestBlockhash ex_world = Some ''hash1'' \<and> keypair ex_alice = Some ''PkAlice''
   \<and> validAddress ex_world ''Dest''
   \<and> 0 \<le> Math_round (1 / 2 * LAMPORTS_PER_SOL) \<and> Math_round (1 / 2 * LAMPORTS_PER_SOL) \<le> U64_MAX
   \<and> (\<exists>p. createTransferProposal new_manager ex_world ex_alice ''Dest'' (1 / 2) ''treasury'' 7 [ex_bob]
              = (Inr p, new_manager\<lparr>proposals := AList.update (''msig-'' @ nanoid ex_world) p (proposals new_manager)\<rparr>)
           \<and> map_of (proposals (snd (createTransferProposal new_manager ex_world ex_alice ''Dest'' (1 / 2) ''treasury'' 7 [ex_bob])))
               (''msig-'' @ nanoid ex_world) = Some p
           \<and> requiredSigners p = 7 \<and> status p = PENDING
           \<and> authorizedSigners p = agentId ex_alice # map agentId [ex_bob])"
proof -
  have a: "latestBlockhash ex_world = Some ''hash1''" "keypair ex_alice = Some ''PkAlice''"
    "validAddress ex_world ''Dest''"
    "0 \<le> Math_round (1 / 2 * LAMPORTS_PER_SOL)" "Math_round (1 / 2 * LAMPORTS_PER_SOL) \<le> U64_MAX"
    by (simp_all add: ex_world_def ex_alice_def Math_round_def LAMPORTS_PER_SOL_def U64_MAX_def)
  from create_never_checks_threshold[OF a, of new_manager "''treasury''" 7 "[ex_bob]"] a
  show ?thesis by blast
qed

text \<open>
  An amount whose lamports do not fit is refused before anything is registered, whatever
  the threshold.
\<close>

lemma create_refuses_lamports:
  "createTransferProposal new_manager ex_world ex_alice ''Dest'' (- (1 / 2)) ''treasury'' k [ex_bob]
     = (Inl (LamportsOutOfRange (- 500000000)), new_manager)"
  by (simp add: ex_defs msig_defs)

text \<open>
  Bob's co-signature on the 2-of-3 proposal of the example.
\<close>

lemma ex_coSign_bob:
  "coSign (ex_created 2) ex_pid ex_bob = (Inr (ex_approved, True), \<lparr>proposals = [(ex_pid, ex_approved)], sent = []\<rparr>)"
  by (simp add: ex_created_eq) (simp add: ex_defs msig_defs ex_proposal_def ex_approved_def)

lemma ex_cosigned_eq: "ex_cosigned = \<lparr>proposals = [(ex_pid, ex_approved)], sent = []\<rparr>"
  by (simp add: ex_cosigned_def ex_coSign_bob)

text \<open>
  Bob's co-signature makes him the fee payer of the transaction object, after which no
  signer can execute the approved proposal: Alice or Bob signing alone leaves the other's
  required signature missing, and Carol is an unknown signer.
\<close>

lemma ex_execute_cosigned:
  "execute ex_cosigned ex_world ex_pid ex_alice = (Inl SignatureMissing, ex_cosigned)"
  "execute ex_cosigned ex_world ex_pid ex_bob = (Inl SignatureMissing, ex_cosigned)"
  "execute ex_cosigned ex_world ex_pid ex_carol = (Inl (UnknownSigner ''PkCarol''), ex_cosigned)"
  by (simp_all add: ex_cosigned_eq)
     (simp_all add: ex_proposal_def ex_approved_def ex_alice_def ex_bob_def ex_carol_def
        ex_world_def ex_pid_def execute_def signAndSend_def accountKeys_def SYSTEM_PROGRAM_ID_def
        isApproved_def signatureCount_def)

text \<open>
  C6, as stated, fails: after the proposer's signature at creation and Bob's co-signature
  the proposal is \<open>APPROVED\<close> with two signatures, and the co-signature of Carol, the
  third authorized signer, raises \<open>Proposal ... is APPROVED\<close> and changes nothing.
\<close>

theorem third_coSign_raises:
  "status (ex_proposal 2) = PENDING \<and> signatureCount (ex_proposal 2) = 1
   \<and> coSign (ex_created 2) ex_pid ex_bob = (Inr (ex_approved, True), ex_cosigned)
   \<and> status ex_approved = APPROVED \<and> signatureCount ex_approved = 2
   \<and> ''carol'' \<in> set (authorizedSigners ex_approved)
   \<and> coSign ex_cosigned ex_pid ex_carol = (Inl (ProposalIs ex_pid APPROVED), ex_cosigned)"
  by (simp add: ex_coSign_bob ex_cosigned_eq)
     (simp add: ex_defs msig_defs ex_proposal_def ex_approved_def)

text \<open>
  C6, amended. Once a \<open>coSign\<close> has returned the proposal with status \<open>APPROVED\<close>,
  a further \<open>coSign\<close> by anyone raises \<open>Proposal ... is APPROVED\<close> and leaves the
  manager as it was: no signature is added and the status stays \<open>APPROVED\<close>.
\<close>

theorem coSign_after_approval:
  assumes "coSign m pid b = (Inr (p, approved), m')" and "status p = APPROVED"
  shows "coSign m' pid c = (Inl (ProposalIs pid APPROVED), m')
       \<and> map_of (proposals m') pid = Some p"
proof -
  from assms have "map_of (proposals m') pid = Some p"
    by (auto simp: coSign_def Let_def update_conv' split: option.splits if_splits sum.splits)
  with assms(2) show ?thesis by (simp add: coSign_def)
qed

text \<open>
  C6, amended, at the 2-of-3 proposal of the example with Carol as the third signer.
\<close>

theorem coSign_after_approval_witness:
  "coSign (ex_created 2) ex_pid ex_bob = (Inr (ex_approved, True), ex_cosigned)
   \<and> status ex_approved = APPROVED
   \<and> coSign ex_cosigned ex_pid ex_carol = (Inl (ProposalIs ex_pid APPROVED), ex_cosigned)
   \<and> map_of (proposals ex_cosigned) ex_pid = Some ex_approved"
proof -
  have a: "coSign (ex_created 2) ex_pid ex_bob = (Inr (ex_approved, True), ex_cosigned)"
    by (simp add: ex_coSign_bob ex_cosigned_eq)
  have b: "status ex_approved = APPROVED"
    by (simp add: ex_approved_def)
  from coSign_after_approval[OF a b, of ex_carol] a b show ?thesis by simp
qed

text \<open>
  C9, as stated, fails: Bob is authorized and has signed the 2-of-3 proposal, which his
  signature approved; his second \<open>coSign\<close> raises.
\<close>

theorem second_coSign_after_approval_raises:
  "''bob'' \<in> set (authorizedSigners ex_approved)
   \<and> map_of (signatures ex_approved) ''bob'' = Some (SignatureOf ''PkBob'')
   \<and> map_of (proposals ex_cosigned) ex_pid = Some ex_approved
   \<and> coSign ex_cosigned ex_pid ex_bob = (Inl (ProposalIs ex_pid APPROVED), ex_cosigned)"
  by (simp add: ex_cosigned_eq) (simp add: ex_defs msig_defs ex_proposal_def ex_approved_def)

text \<open>
  C9, amended. For an authorized signer who has already signed: while the proposal is
  \<open>PENDING\<close>, \<open>coSign\<close> does not raise, changes nothing and returns the proposal with
  its current approval; once the proposal is no longer \<open>PENDING\<close>, \<open>coSign\<close> raises and
  changes nothing.
\<close>

theorem coSign_idempotent_while_pending:
  assumes "map_of (proposals m) pid = Some p" and "agentId w \<in> set (authorizedSigners p)"
    and "map_of (signatures p) (agentId w) = Some sg"
  shows "(status p = PENDING \<longrightarrow> coSign m pid w = (Inr (p, isApproved p), m))
       \<and> (status p \<noteq> PENDING \<longrightarrow> coSign m pid w = (Inl (ProposalIs pid (status p)), m))"
  using assms by (simp add: coSign_def)

text \<open>
  C9, amended, at Alice's second signature before and after the approval.
\<close>

theorem coSign_idempotent_while_pending_witness:
  "map_of (proposals (ex_created 2)) ex_pid = Some (ex_proposal 2)
   \<and> agentId ex_alice \<in> set (authorizedSigners (ex_proposal 2))
   \<and> map_of (signatures (ex_proposal 2)) (agentId ex_alice) = Some (SignatureOf ''PkAlice'')
   \<and> status (ex_proposal 2) = PENDING
   \<and> coSign (ex_created 2) ex_pid ex_alice = (Inr (ex_proposal 2, False), ex_created 2)
   \<and> map_of (proposals ex_cosigned) ex_pid = Some ex_approved
   \<and> agentId ex_alice \<in> set (authorizedSigners ex_approved)
   \<and> map_of (signatures ex_approved) (agentId ex_alice) = Some (SignatureOf ''PkAlice'')
   \<and> status ex_approved \<noteq> PENDING
   \<and> coSign ex_cosigned ex_pid ex_alice = (Inl (ProposalIs ex_pid APPROVED), ex_cosigned)"
proof -
  have a: "map_of (proposals (ex_created 2)) ex_pid = Some (ex_proposal 2)"
    "agentId ex_alice \<in> set (authorizedSigners (ex_proposal 2))"
    "map_of (signatures (ex_proposal 2)) (agentId ex_alice) = Some (SignatureOf ''PkAlice'')"
    by (simp_all add: ex_created_eq ex_proposal_def ex_alice_def)
  have b: "map_of (proposals ex_cosigned) ex_pid = Some ex_approved"
    "agentId ex_alice \<in> set (authorizedSigners ex_approved)"
    "map_of (signatures ex_approved) (agentId ex_alice) = Some (SignatureOf ''PkAlice'')"
    by (simp_all add: ex_cosigned_eq ex_approved_def ex_proposal_def ex_alice_def)
  have c: "status (ex_proposal 2) = PENDING" "status ex_approved = APPROVED"
    "\<not> isApproved (ex_proposal 2)"
    by (simp_all add: ex_proposal_def ex_approved_def isApproved_def signatureCount_def)
  from coSign_idempotent_while_pending[OF a] coSign_idempotent_while_pending[OF b] a b c
  show ?thesis by simp
qed

section \<open>Properties of the decision engine\<close>

lemmas engine_defs = tick_def buildSnapshot_def buildPeerSnapshots_def llmDecide_def
  validateDecision_def validActions_def amount_or_def executeStateWithLLMContext_def
  doLLMTrade_def llmTradeRequest_def doYield_def doRebal_def fallbackDecisionObject_def
  toFixed6_def Math_random_def pick_def Let_def

lemmas engine_ex_defs = ex_engine_def ex_env_def ex_trade_def ex_alice_def ex_bob_def

text \<open>
  The cap in the validator and in the two trade paths. A decision that leaves the
  validator as \<open>TRADE\<close> holds an amount of at most the cap, and the balance less the
  amount asked for is at least 0.003. The amount handed to \<open>protocol.executeTrade\<close> is
  rounded to six decimals after it is clamped, so it is bounded by the rounded cap, and by
  the cap itself when the cap is a whole number of millionths.
\<close>

lemma validate_trade_capped:
  assumes "validateDecision cap d balance = (TRADE, d')" and "tradeAmount d' = Some a"
  shows "a \<le> cap"
  using assms
  by (auto simp: validateDecision_def validActions_def amount_or_def Let_def split: if_splits)

lemma validate_trade_floor:
  assumes "validateDecision cap d balance = (TRADE, d')"
  shows "balance - amount_or (tradeAmount d) 0 \<ge> 3 / 1000"
  using assms
  by (auto simp: validateDecision_def validActions_def Let_def split: if_splits)

lemma toFixed6_mono: "x \<le> y \<Longrightarrow> toFixed6 x \<le> toFixed6 y"
proof -
  assume xy: "x \<le> y"
  have m: "\<And>a b :: rat. a \<le> b \<Longrightarrow> (of_int \<lfloor>a * 1000000 + 1 / 2\<rfloor> :: rat) / 1000000 \<le> of_int \<lfloor>b * 1000000 + 1 / 2\<rfloor> / 1000000"
    by (simp add: floor_mono divide_right_mono)
  have nn: "\<And>a :: rat. 0 \<le> a \<Longrightarrow> 0 \<le> \<lfloor>a * 1000000 + 1 / 2\<rfloor>"
    by simp
  consider "x < 0" "y < 0" | "x < 0" "0 \<le> y" | "0 \<le> x" "0 \<le> y"
    using xy by linarith
  then show ?thesis
  proof cases
    case 1
    then show ?thesis using m[of "- y" "- x"] xy by (simp add: toFixed6_def)
  next
    case 2
    have "toFixed6 x \<le> 0"
      using 2(1) nn[of "- x"] by (simp add: toFixed6_def)
    moreover have "0 \<le> toFixed6 y"
      using 2(2) nn[of y] by (simp add: toFixed6_def)
    ultimately show ?thesis by linarith
  next
    case 3
    then show ?thesis using m[of x y] xy by (simp add: toFixed6_def)
  qed
qed

lemma toFixed6_grid: "toFixed6 (of_int k / 1000000) = of_int k / 1000000"
  by (cases "k < 0") (simp_all add: toFixed6_def not_less)

lemma llmTradeRequest_amount:
  assumes "llmTradeRequest cap e env balance d = Some (tp, a)"
  shows "a \<le> toFixed6 cap \<and> a > 1 / 1000000"
proof -
  let ?x = "min (amount_or (tradeAmount d) (Math_random (rndTradeAmount env) * cap))
                (min cap (balance * (1 / 10)))"
  from assms have "a = toFixed6 ?x \<and> a > 1 / 1000000"
    by (auto simp: llmTradeRequest_def Let_def split: option.splits if_splits)
  moreover have "toFixed6 ?x \<le> toFixed6 cap"
    by (rule toFixed6_mono) simp
  ultimately show ?thesis by simp
qed

lemma llmTradeRequest_within_whole_cap:
  assumes "llmTradeRequest (of_int k / 1000000) e env balance d = Some (tp, a)"
  shows "a \<le> of_int k / 1000000"
  using llmTradeRequest_amount[OF assms] by (simp add: toFixed6_grid)

lemma Math_random_range: "0 \<le> Math_random x \<and> Math_random x < 1"
  unfolding Math_random_def by linarith

lemma pick_member: "xs \<noteq> [] \<Longrightarrow> pick r xs \<in> set xs"
proof -
  assume ne: "xs \<noteq> []"
  let ?n = "of_nat (length xs) :: rat"
  have n: "0 < ?n" using ne by simp
  have lo: "0 \<le> Math_random r * ?n" using Math_random_range[of r] by simp
  have hi: "Math_random r * ?n < ?n" using Math_random_range[of r] n by simp
  have "\<lfloor>Math_random r * ?n\<rfloor> < int (length xs)"
    using hi by (simp add: floor_less_iff)
  moreover have "0 \<le> \<lfloor>Math_random r * ?n\<rfloor>" using lo by simp
  ultimately have "nat \<lfloor>Math_random r * ?n\<rfloor> < length xs" by linarith
  then show ?thesis by (simp add: pick_def)
qed

lemma ruleTradeRequest_amount:
  assumes "ruleTradeRequest cap e env balance = Some (tp, a)"
  shows "a \<le> toFixed6 cap \<and> a > 0"
proof -
  let ?m = "min cap (balance * (1 / 10))"
  from assms have f: "a = toFixed6 (Math_random (rndTradeAmount env) * ?m) \<and> a > 0 \<and> \<not> ?m < 1 / 1000000"
    by (auto simp: ruleTradeRequest_def Let_def split: if_splits)
  then have "0 \<le> ?m" by linarith
  then have "Math_random (rndTradeAmount env) * ?m \<le> 1 * ?m"
    using Math_random_range[of "rndTradeAmount env"] by (intro mult_right_mono) simp_all
  then have "Math_random (rndTradeAmount env) * ?m \<le> cap" by simp
  then have "toFixed6 (Math_random (rndTradeAmount env) * ?m) \<le> toFixed6 cap"
    by (rule toFixed6_mono)
  with f show ?thesis by simp
qed

text \<open>
  C1. With the cap set to 0.0100006 and a reply asking to trade 0.5 SOL with Bob at
  balance 1, the validator caps the amount at 0.0100006, and the tick trades 0.010001 SOL,
  which is more than the cap.
\<close>

theorem executed_amount_exceeds_cap:
  "validateDecision (100006 / 10000000) (ex_trade ''bob'' (1 / 2)) 1
     = (TRADE, ex_trade ''bob'' (100006 / 10000000))
   \<and> snd (snd (tick (100006 / 10000000) ex_engine (ex_env 1 (Parsed (ex_trade ''bob'' (1 / 2))))))
     = [DecisionEv ''alice'' 1 1 IDLE TRADE ''llm'' (Some ''rich''),
        TradeAction ''alice'' (10001 / 1000000) ''bob'' ''sig1'' ''llm'' ''rich'']
   \<and> (10001 / 1000000 :: rat) > 100006 / 10000000"
  by (simp add: engine_defs engine_ex_defs)

text \<open>
  C4, as stated, fails: at balance 1 and cap 0.01 a trade of 5 SOL is turned into
  \<open>IDLE\<close>, although the balance less the cap is above the floor.
\<close>

theorem floor_veto_precedes_clamp:
  "validateDecision (1 / 100) (ex_trade ''bob'' 5) 1 = (IDLE, ex_trade ''bob'' 5)
   \<and> (5 :: rat) > 1 / 100 \<and> (1 :: rat) - 1 / 100 \<ge> 3 / 1000"
  by (simp add: engine_defs engine_ex_defs)

text \<open>
  C4, amended. For a \<open>TRADE\<close> whose amount is above the cap, the validator first checks
  the floor against the amount as asked for, and answers \<open>IDLE\<close> when the balance less
  that amount is below 0.003; only otherwise does it clamp the amount to the cap and keep
  the \<open>TRADE\<close>.
\<close>

theorem validate_floor_then_clamp:
  assumes "action d = TRADE" and "tradeAmount d = Some a" and "a > cap"
  shows "validateDecision cap d balance
           = (if balance - a < 3 / 1000 then (IDLE, d) else (TRADE, d\<lparr>tradeAmount := Some cap\<rparr>))"
  using assms by (auto simp: validateDecision_def validActions_def amount_or_def)

text \<open>
  C4, amended, at a trade of 5 SOL with cap 0.01, at balance 1 and at balance 6.
\<close>

theorem validate_floor_then_clamp_witness:
  "action (ex_trade ''bob'' 5) = TRADE \<and> tradeAmount (ex_trade ''bob'' 5) = Some 5
   \<and> (5 :: rat) > 1 / 100
   \<and> validateDecision (1 / 100) (ex_trade ''bob'' 5) 1 = (IDLE, ex_trade ''bob'' 5)
   \<and> validateDecision (1 / 100) (ex_trade ''bob'' 5) 6 = (TRADE, ex_trade ''bob'' (1 / 100))"
proof -
  have a: "action (ex_trade ''bob'' 5) = TRADE" "tradeAmount (ex_trade ''bob'' 5) = Some 5"
    "(5 :: rat) > 1 / 100"
    by (simp_all add: ex_trade_def)
  from validate_floor_then_clamp[OF a, of 1] validate_floor_then_clamp[OF a, of 6] a
  show ?thesis by (simp add: ex_trade_def)
qed

text \<open>
  C7, as stated, fails: when the inference call fails, the decision event of the tick
  carries the source \<open>llm\<close>, not \<open>rule\<close>.
\<close>

theorem fallback_event_source_is_llm:
  "snd (snd (tick (1 / 100) ex_engine (ex_env 1 FetchFailed)))
     = [DecisionEv ''alice'' 1 1 IDLE TRADE ''llm'' (Some ''Rule-based trade opportunity''),
        TradeAction ''alice'' (1 / 200) ''bob'' ''sig1'' ''llm'' ''Rule-based trade opportunity'']
   \<and> hd (snd (snd (tick (1 / 100) ex_engine (ex_env 1 FetchFailed))))
     \<noteq> DecisionEv ''alice'' 1 1 IDLE TRADE ''rule'' (Some ''Rule-based trade opportunity'')"
  by (simp add: engine_defs engine_ex_defs)

text \<open>
  The fallback decision does not depend on the call counters, the validator keeps the
  reason, and \<open>_llmDecide\<close> returns the fallback decision when there is no key or the
  call yields no parsed object.
\<close>

lemma fallback_counters [simp]:
  "fallbackDecisionObject cap (e\<lparr>llmCallCount := a\<rparr>) env b = fallbackDecisionObject cap e env b"
  "fallbackDecisionObject cap (e\<lparr>llmFailCount := c\<rparr>) env b = fallbackDecisionObject cap e env b"
  by (simp_all add: fallbackDecisionObject_def)

lemma validate_reason [simp]: "reason (snd (validateDecision cap d b)) = reason d"
  by (simp add: validateDecision_def Let_def)

lemma llmDecide_failure:
  assumes "apiKey e = None \<or> apiKey e = Some [] \<or> (\<forall>d. infer env snap \<noteq> Parsed d)"
  shows "llmDecide cap e env snap
           = (fallbackDecisionObject cap e env (balanceSOL snap),
              if apiKey e = None \<or> apiKey e = Some [] then e
              else e\<lparr>llmCallCount := llmCallCount e + 1, llmFailCount := llmFailCount e + 1\<rparr>)"
  using assms by (auto simp: llmDecide_def Let_def split: llm_reply.splits)

text \<open>
  C7, amended. When the balance query succeeds with at least 0.003, the wallet is loaded,
  and there is no key or the inference call fails, the tick does not raise; the decision it
  validates and executes is the fallback decision for the rounded balance of the same
  snapshot; a failed call is counted in \<open>_llmFailCount\<close>; and the decision event carries
  the source \<open>llm\<close>.
\<close>

theorem tick_falls_back_on_failure:
  assumes "solBalance env (agentId (ewallet e)) = Some balance" and "\<not> balance < 3 / 1000"
    and "keypair (ewallet e) = Some pk"
    and "apiKey e = None \<or> apiKey e = Some []
         \<or> (\<forall>d. infer env (buildSnapshot cap (e\<lparr>cycleCount := cycleCount e + 1\<rparr>) env balance pk)
                  \<noteq> Parsed d)"
  shows "tick cap e env =
     (let e1 = e\<lparr>cycleCount := cycleCount e + 1\<rparr>;
          e2 = (if apiKey e = None \<or> apiKey e = Some [] then e1
                else e1\<lparr>llmCallCount := llmCallCount e + 1, llmFailCount := llmFailCount e + 1\<rparr>);
          fb = fallbackDecisionObject cap e1 env (toFixed6 balance);
          (nextState, d) = validateDecision cap fb balance;
          (e4, evs) = executeStateWithLLMContext cap
                        (e2\<lparr>lastLLMDecision := Some d, state := nextState\<rparr>) env balance d
      in (Inr (), e4,
          DecisionEv (engineId e) (cycleCount e + 1) balance (state e) nextState ''llm''
            (Some (reason fb)) # evs))"
proof -
  define e1 where "e1 = e\<lparr>cycleCount := cycleCount e + 1\<rparr>"
  let ?snap = "buildSnapshot cap e1 env balance pk"
  define e2 where "e2 = (if apiKey e = None \<or> apiKey e = Some [] then e1
                else e1\<lparr>llmCallCount := llmCallCount e + 1, llmFailCount := llmFailCount e + 1\<rparr>)"
  define fb where "fb = fallbackDecisionObject cap e1 env (toFixed6 balance)"
  obtain ns d where v: "validateDecision cap fb balance = (ns, d)"
    by (cases "validateDecision cap fb balance") blast
  obtain e4 evs where x: "executeStateWithLLMContext cap
      (e2\<lparr>lastLLMDecision := Some d, state := ns\<rparr>) env balance d = (e4, evs)"
    by (cases "executeStateWithLLMContext cap
      (e2\<lparr>lastLLMDecision := Some d, state := ns\<rparr>) env balance d") blast
  have same: "engineId e2 = engineId e" "cycleCount e2 = cycleCount e + 1" "state e2 = state e"
    "ewallet e1 = ewallet e" "apiKey e1 = apiKey e" "llmCallCount e1 = llmCallCount e"
    "llmFailCount e1 = llmFailCount e"
    by (simp_all add: e2_def e1_def)
  have f: "apiKey e1 = None \<or> apiKey e1 = Some [] \<or> (\<forall>d. infer env ?snap \<noteq> Parsed d)"
    using assms(4) by (simp add: same e1_def)
  have ld: "llmDecide cap e1 env ?snap = (fb, e2)"
    using llmDecide_failure[OF f, of cap]
    by (simp add: same fb_def e2_def buildSnapshot_def)
  have rd: "reason d = reason fb"
    using validate_reason[of cap fb balance] v by simp
  have lhs: "tick cap e env = (Inr (), e4,
      DecisionEv (engineId e) (cycleCount e + 1) balance (state e) ns ''llm'' (Some (reason fb)) # evs)"
    unfolding tick_def Let_def e1_def[symmetric]
    using assms(1-3) by (simp add: same ld v x rd)
  have rhs: "(let e1 = e\<lparr>cycleCount := cycleCount e + 1\<rparr>;
          e2 = (if apiKey e = None \<or> apiKey e = Some [] then e1
                else e1\<lparr>llmCallCount := llmCallCount e + 1, llmFailCount := llmFailCount e + 1\<rparr>);
          fb = fallbackDecisionObject cap e1 env (toFixed6 balance);
          (nextState, d) = validateDecision cap fb balance;
          (e4, evs) = executeStateWithLLMContext cap
                        (e2\<lparr>lastLLMDecision := Some d, state := nextState\<rparr>) env balance d
      in (Inr (), e4,
          DecisionEv (engineId e) (cycleCount e + 1) balance (state e) nextState ''llm''
            (Some (reason fb)) # evs)) = (Inr (), e4,
      DecisionEv (engineId e) (cycleCount e + 1) balance (state e) ns ''llm'' (Some (reason fb)) # evs)"
    unfolding Let_def e1_def[symmetric] e2_def[symmetric] fb_def[symmetric]
    by (simp add: v x)
  show ?thesis by (simp only: lhs rhs)
qed

text \<open>
  C7, amended, at a tick of the example agent whose inference call fails.
\<close>

theorem tick_falls_back_on_failure_witness:
  "solBalance (ex_env 1 FetchFailed) (agentId (ewallet ex_engine)) = Some 1 \<and> \<not> (1 :: rat) < 3 / 1000
   \<and> keypair (ewallet ex_engine) = Some ''PkAlice''
   \<and> (\<forall>d. infer (ex_env 1 FetchFailed)
              (buildSnapshot (1 / 100) (ex_engine\<lparr>cycleCount := cycleCount ex_engine + 1\<rparr>)
                 (ex_env 1 FetchFailed) 1 ''PkAlice'') \<noteq> Parsed d)
   \<and> fst (tick (1 / 100) ex_engine (ex_env 1 FetchFailed)) = Inr ()
   \<and> snd (snd (tick (1 / 100) ex_engine (ex_env 1 FetchFailed)))
     = [DecisionEv ''alice'' 1 1 IDLE TRADE ''llm'' (Some ''Rule-based trade opportunity''),
        TradeAction ''alice'' (1 / 200) ''bob'' ''sig1'' ''llm'' ''Rule-based trade opportunity'']"
proof -
  have a: "solBalance (ex_env 1 FetchFailed) (agentId (ewallet ex_engine)) = Some 1"
    "\<not> (1 :: rat) < 3 / 1000" "keypair (ewallet ex_engine) = Some ''PkAlice''"
    by (simp_all add: engine_ex_defs)
  have b: "apiKey ex_engine = None \<or> apiKey ex_engine = Some []
     \<or> (\<forall>d. infer (ex_env 1 FetchFailed)
              (buildSnapshot (1 / 100) (ex_engine\<lparr>cycleCount := cycleCount ex_engine + 1\<rparr>)
                 (ex_env 1 FetchFailed) 1 ''PkAlice'') \<noteq> Parsed d)"
    by (simp add: ex_env_def)
  have c: "\<forall>d. infer (ex_env 1 FetchFailed)
              (buildSnapshot (1 / 100) (ex_engine\<lparr>cycleCount := cycleCount ex_engine + 1\<rparr>)
                 (ex_env 1 FetchFailed) 1 ''PkAlice'') \<noteq> Parsed d"
    by (simp add: ex_env_def)
  have t: "tick (1 / 100) ex_engine (ex_env 1 FetchFailed) =
     (let e1 = ex_engine\<lparr>cycleCount := cycleCount ex_engine + 1\<rparr>;
          e2 = (if apiKey ex_engine = None \<or> apiKey ex_engine = Some [] then e1
                else e1\<lparr>llmCallCount := llmCallCount ex_engine + 1, llmFailCount := llmFailCount ex_engine + 1\<rparr>);
          fb = fallbackDecisionObject (1 / 100) e1 (ex_env 1 FetchFailed) (toFixed6 1);
          (nextState, d) = validateDecision (1 / 100) fb 1;
          (e4, evs) = executeStateWithLLMContext (1 / 100)
                        (e2\<lparr>lastLLMDecision := Some d, state := nextState\<rparr>) (ex_env 1 FetchFailed) 1 d
      in (Inr (), e4,
          DecisionEv (engineId ex_engine) (cycleCount ex_engine + 1) 1 (state ex_engine) nextState ''llm''
            (Some (reason fb)) # evs))"
    by (rule tick_falls_back_on_failure[OF a b])
  have v: "snd (snd (tick (1 / 100) ex_engine (ex_env 1 FetchFailed)))
     = [DecisionEv ''alice'' 1 1 IDLE TRADE ''llm'' (Some ''Rule-based trade opportunity''),
        TradeAction ''alice'' (1 / 200) ''bob'' ''sig1'' ''llm'' ''Rule-based trade opportunity'']"
    unfolding t
    by (simp add: validateDecision_def validActions_def amount_or_def executeStateWithLLMContext_def
        doLLMTrade_def llmTradeRequest_def fallbackDecisionObject_def
        toFixed6_def Math_random_def pick_def Let_def engine_ex_defs)
  have w: "fst (tick (1 / 100) ex_engine (ex_env 1 FetchFailed)) = Inr ()"
    unfolding t by (simp add: Let_def split: prod.splits)
  from a c v w show ?thesis by simp
qed

text \<open>
  C8, as stated, fails: a \<open>TRADE\<close> whose target is no peer of the agent passes the
  validator as \<open>TRADE\<close>, and the tick trades with Bob, the agent's only peer.
\<close>

theorem unknown_target_trades_with_peer:
  "''ghost'' \<notin> set (map agentId (peers ex_engine))
   \<and> validateDecision (1 / 100) (ex_trade ''ghost'' (1 / 200)) 1 = (TRADE, ex_trade ''ghost'' (1 / 200))
   \<and> snd (snd (tick (1 / 100) ex_engine (ex_env 1 (Parsed (ex_trade ''ghost'' (1 / 200))))))
     = [DecisionEv ''alice'' 1 1 IDLE TRADE ''llm'' (Some ''rich''),
        TradeAction ''alice'' (1 / 200) ''bob'' ''sig1'' ''llm'' ''rich'']"
  by (simp add: engine_defs engine_ex_defs)

lemma find_unknown:
  "t \<notin> set (map agentId ps) \<Longrightarrow> find (\<lambda>p. agentId p = t) ps = None"
  by (induction ps) auto

text \<open>
  C8, amended. The validator does not look at the target: a \<open>TRADE\<close> whose target is
  absent or no peer stays \<open>TRADE\<close> unless the balance floor vetoes it. The execution then
  trades with a peer picked at random when the agent has a peer and the rounded amount is
  above 0.000001, and makes no trade otherwise.
\<close>

theorem unresolved_target_not_vetoed:
  assumes "action d = TRADE"
    and "tradeTarget d = None \<or> (\<exists>t. tradeTarget d = Some t \<and> t \<notin> set (map agentId (peers e)))"
  shows "fst (validateDecision cap d balance)
           = (if balance - amount_or (tradeAmount d) 0 < 3 / 1000 then IDLE else TRADE)
       \<and> llmTradeRequest cap e env balance d
           = (if peers e = [] then None
              else
                let amount = toFixed6 (min (amount_or (tradeAmount d)
                                              (Math_random (rndTradeAmount env) * cap))
                                           (min cap (balance * (1 / 10))))
                in if amount \<le> 1 / 1000000 then None
                   else Some (pick (rndTradePeer env) (peers e), amount))"
proof
  show "fst (validateDecision cap d balance)
           = (if balance - amount_or (tradeAmount d) 0 < 3 / 1000 then IDLE else TRADE)"
    using assms(1) by (simp add: validateDecision_def validActions_def Let_def)
  have "(case tradeTarget d of None \<Rightarrow> None
         | Some t \<Rightarrow> if t = [] then None else find (\<lambda>p. agentId p = t) (peers e)) = None"
    using assms(2) by (auto simp: find_unknown)
  then show "llmTradeRequest cap e env balance d
           = (if peers e = [] then None
              else
                let amount = toFixed6 (min (amount_or (tradeAmount d)
                                              (Math_random (rndTradeAmount env) * cap))
                                           (min cap (balance * (1 / 10))))
                in if amount \<le> 1 / 1000000 then None
                   else Some (pick (rndTradePeer env) (peers e), amount))"
    by (simp add: llmTradeRequest_def Let_def)
qed

text \<open>
  C8, amended, at a trade with the unknown target \<open>ghost\<close>.
\<close>

theorem unresolved_target_not_vetoed_witness:
  "action (ex_trade ''ghost'' (1 / 200)) = TRADE
   \<and> tradeTarget (ex_trade ''ghost'' (1 / 200)) = Some ''ghost''
   \<and> ''ghost'' \<notin> set (map agentId (peers ex_engine))
   \<and> fst (validateDecision (1 / 100) (ex_trade ''ghost'' (1 / 200)) 1) = TRADE
   \<and> llmTradeRequest (1 / 100) ex_engine (ex_env 1 FetchFailed) 1 (ex_trade ''ghost'' (1 / 200))
       = Some (ex_bob, 1 / 200)"
proof -
  have a: "action (ex_trade ''ghost'' (1 / 200)) = TRADE"
    by (simp add: ex_trade_def)
  have b: "tradeTarget (ex_trade ''ghost'' (1 / 200)) = Some ''ghost''"
    "''ghost'' \<notin> set (map agentId (peers ex_engine))"
    by (simp_all add: engine_ex_defs)
  then have c: "tradeTarget (ex_trade ''ghost'' (1 / 200)) = None
     \<or> (\<exists>t. tradeTarget (ex_trade ''ghost'' (1 / 200)) = Some t \<and> t \<notin> set (map agentId (peers ex_engine)))"
    by simp
  from unresolved_target_not_vetoed[OF a c, of "1 / 100" 1 "ex_env 1 FetchFailed"] a b
  show ?thesis
    by (simp add: amount_or_def toFixed6_def Math_random_def pick_def Let_def engine_ex_defs)
qed

end
